theory Spec2Isabelle
  imports Main "HOL-Library.Word"
begin

section \<open>Real-time transcription: the App component of src/App.tsx\<close>

text \<open>
  The component keeps five pieces of React state (\<open>isListening\<close>, \<open>transcript\<close>,
  \<open>language\<close>, \<open>error\<close>, \<open>isCopied\<close>) and two refs that matter for the logic
  (\<open>recognitionRef\<close>, \<open>transcriptAtSessionStart\<close>). Every handler of the source is
  a function from the state before the event to the state after it. The two external
  collaborators, the platform speech recogniser and the clipboard, are logs of the calls
  made on them.
\<close>

subsection \<open>JavaScript strings\<close>

text \<open>
  A JavaScript string is a sequence of UTF-16 code units. The literals of the source are
  ASCII, so \<open>lit\<close> embeds an Isabelle string one character per code unit.
\<close>

type_synonym code_unit = "16 word"
type_synonym jsstring = "code_unit list"

definition lit :: "string \<Rightarrow> jsstring" where
  "lit cs = map of_char cs"

text \<open>
  \<open>String.prototype.trim\<close> removes, from both ends, the code points that ECMAScript
  calls WhiteSpace or LineTerminator. All of them lie in the Basic Multilingual Plane,
  so each is one code unit.
\<close>

definition isWhiteSpace :: "code_unit \<Rightarrow> bool" where
  "isWhiteSpace c \<longleftrightarrow>
     c = 0x0009 \<or> c = 0x000A \<or> c = 0x000B \<or> c = 0x000C \<or> c = 0x000D \<or>
     c = 0x0020 \<or> c = 0x00A0 \<or> c = 0x1680 \<or> (0x2000 \<le> c \<and> c \<le> 0x200A) \<or>
     c = 0x2028 \<or> c = 0x2029 \<or> c = 0x202F \<or> c = 0x205F \<or> c = 0x3000 \<or>
     c = 0xFEFF"

definition trimStart :: "jsstring \<Rightarrow> jsstring" where
  "trimStart s = dropWhile isWhiteSpace s"

definition trimEnd :: "jsstring \<Rightarrow> jsstring" where
  "trimEnd s = rev (dropWhile isWhiteSpace (rev s))"

definition trim :: "jsstring \<Rightarrow> jsstring" where
  "trim s = trimEnd (trimStart s)"

subsection \<open>The platform interfaces\<close>

text \<open>
  The recogniser object built by \<open>new SpeechRecognition()\<close>, with the three properties
  the source assigns.
\<close>

record recognition =
  continuous :: bool
  interimResults :: bool
  lang :: jsstring

text \<open>
  Calls made on the platform recogniser, in order: the constructor (with the language the
  new object is configured with), \<open>start()\<close> and \<open>stop()\<close>.
\<close>

datatype platform_call = Construct jsstring | StartCall | StopCall

text \<open>
  One entry of \<open>event.results\<close>: its \<open>isFinal\<close> flag and the transcript of its first
  alternative, \<open>event.results[i][0].transcript\<close>. The Web Speech API gives every result
  at least one alternative, so item 0 always exists.
\<close>

record speech_result =
  isFinal :: bool
  transcript0 :: jsstring

text \<open>The argument of \<open>onresult\<close>: \<open>event.resultIndex\<close> and \<open>event.results\<close>.\<close>

record speech_event =
  resultIndex :: nat
  results :: "speech_result list"

subsection \<open>Component state\<close>

record app =
  isListening :: bool
  transcript :: jsstring
  language :: jsstring
  error :: "jsstring option"
  isCopied :: bool
  recognitionRef :: "recognition option"
  transcriptAtSessionStart :: jsstring
  hasSpeechRecognition :: bool
  platformCalls :: "platform_call list"
  clipboard :: "jsstring list"
  unsupportedReports :: nat

text \<open>
  \<open>hasSpeechRecognition\<close> is the environment: whether
  \<open>window.SpeechRecognition || window.webkitSpeechRecognition\<close> is defined.
  \<open>clipboard\<close> lists the strings passed to \<open>navigator.clipboard.writeText\<close>.
  \<open>unsupportedReports\<close> counts the executions of the \<open>setError\<close> call of the
  capability check, the one that stores the unsupported message.
\<close>

definition initial :: "bool \<Rightarrow> app" where
  "initial cap =
     \<lparr> isListening = False, transcript = [], language = lit ''en-US'', error = None,
       isCopied = False, recognitionRef = None, transcriptAtSessionStart = [],
       hasSpeechRecognition = cap, platformCalls = [], clipboard = [],
       unsupportedReports = 0 \<rparr>"

subsection \<open>The effect on \<open>language\<close>\<close>

definition unsupportedMessage :: jsstring where
  "unsupportedMessage =
     lit ''Speech recognition is not supported in this browser. Please try Chrome or Edge.''"

text \<open>The body of \<open>useEffect(..., [language])\<close>.\<close>

definition speechEffect :: "app \<Rightarrow> app" where
  "speechEffect s =
     (if \<not> hasSpeechRecognition s then
        s\<lparr>error := Some unsupportedMessage,
          unsupportedReports := Suc (unsupportedReports s)\<rparr>
      else s\<lparr>recognitionRef :=
                Some \<lparr>continuous = True, interimResults = True, lang = language s\<rparr>,
              platformCalls := platformCalls s @ [Construct (language s)]\<rparr>)"

text \<open>
  The cleanup the effect returns, \<open>recognition.stop()\<close>. An effect run that found no
  recogniser returned no cleanup; the recogniser of the last run that found one is the
  one \<open>recognitionRef\<close> holds.
\<close>

definition speechCleanup :: "app \<Rightarrow> app" where
  "speechCleanup s =
     (case recognitionRef s of
        None \<Rightarrow> s
      | Some r \<Rightarrow> s\<lparr>platformCalls := platformCalls s @ [StopCall]\<rparr>)"

text \<open>First render: the effect runs once.\<close>

definition mount :: "bool \<Rightarrow> app" where
  "mount cap = speechEffect (initial cap)"

subsection \<open>Recogniser callbacks\<close>

definition onstart :: "app \<Rightarrow> app" where
  "onstart s = s\<lparr>isListening := True, error := None\<rparr>"

definition onend :: "app \<Rightarrow> app" where
  "onend s = s\<lparr>isListening := False\<rparr>"

definition errorMessage :: "jsstring \<Rightarrow> jsstring" where
  "errorMessage e =
     (if e = lit ''no-speech'' then lit ''No speech was detected. Please try again.''
      else if e = lit ''audio-capture'' then
        lit ''Microphone is not available. Please check your microphone settings.''
      else if e = lit ''not-allowed'' then
        lit ''Permission to use microphone was denied. Please allow microphone access in your browser settings.''
      else lit ''An error occurred: '' @ e)"

definition onerror :: "jsstring \<Rightarrow> app \<Rightarrow> app" where
  "onerror e s = s\<lparr>error := Some (errorMessage e)\<rparr>"

text \<open>
  The loop of \<open>onresult\<close>, from index \<open>i\<close>, on the pair
  (\<open>sessionFinalTranscript\<close>, \<open>sessionInterimTranscript\<close>).
\<close>

function scanResults ::
  "speech_result list \<Rightarrow> nat \<Rightarrow> jsstring \<times> jsstring \<Rightarrow> jsstring \<times> jsstring" where
  "scanResults rs i (fin, intr) =
     (if i < length rs then
        (if isFinal (rs ! i) then scanResults rs (i + 1) (fin @ transcript0 (rs ! i), intr)
         else scanResults rs (i + 1) (fin, intr @ transcript0 (rs ! i)))
      else (fin, intr))"
  by pat_completeness auto
termination
  by (relation "measure (\<lambda>(rs, i, acc). length rs - i)") auto

declare scanResults.simps [simp del]

definition onresult :: "speech_event \<Rightarrow> app \<Rightarrow> app" where
  "onresult ev s =
     (case scanResults (results ev) (resultIndex ev) ([], []) of
        (sessionFinalTranscript, sessionInterimTranscript) \<Rightarrow>
          s\<lparr>transcript :=
              transcriptAtSessionStart s @ sessionFinalTranscript @ sessionInterimTranscript\<rparr>)"

subsection \<open>User handlers\<close>

text \<open>
  \<open>recognitionRef.current?.start()\<close> and \<open>?.stop()\<close> call nothing when the ref is
  null.
\<close>

definition handleToggleListening :: "app \<Rightarrow> app" where
  "handleToggleListening s =
     (if isListening s then
        (case recognitionRef s of
           None \<Rightarrow> s
         | Some r \<Rightarrow> s\<lparr>platformCalls := platformCalls s @ [StopCall]\<rparr>)
      else
        (let currentTranscript = trim (transcript s);
             s' = s\<lparr>transcriptAtSessionStart :=
                      (if currentTranscript \<noteq> [] then currentTranscript @ lit '' '' else [])\<rparr>
         in case recognitionRef s' of
              None \<Rightarrow> s'
            | Some r \<Rightarrow> s'\<lparr>platformCalls := platformCalls s' @ [StartCall]\<rparr>))"

definition handleCopy :: "app \<Rightarrow> app" where
  "handleCopy s =
     (if transcript s \<noteq> [] then
        s\<lparr>clipboard := clipboard s @ [transcript s], isCopied := True\<rparr>
      else s)"

text \<open>The timer that \<open>handleCopy\<close> sets: \<open>setIsCopied(false)\<close>.\<close>

definition copiedTimeout :: "app \<Rightarrow> app" where
  "copiedTimeout s = s\<lparr>isCopied := False\<rparr>"

definition handleClear :: "app \<Rightarrow> app" where
  "handleClear s = s\<lparr>transcript := [], transcriptAtSessionStart := []\<rparr>"

text \<open>
  The \<open>onChange\<close> of the language select: \<open>setLanguage(e.target.value)\<close>. A value
  equal to the current one changes no state and runs no effect; a new value re-renders,
  runs the cleanup of the previous effect and then the effect.
\<close>

definition onLanguageChange :: "jsstring \<Rightarrow> app \<Rightarrow> app" where
  "onLanguageChange v s =
     (if v = language s then s else speechEffect (speechCleanup (s\<lparr>language := v\<rparr>)))"

subsection \<open>The controls of the page\<close>

text \<open>
  The clear and copy buttons carry \<open>disabled={!transcript || isListening}\<close> and the
  language select carries \<open>disabled={isListening}\<close>: a disabled control fires no
  handler. The toggle button is never disabled.
\<close>

definition clearButton :: "app \<Rightarrow> app" where
  "clearButton s = (if transcript s = [] \<or> isListening s then s else handleClear s)"

definition copyButton :: "app \<Rightarrow> app" where
  "copyButton s = (if transcript s = [] \<or> isListening s then s else handleCopy s)"

definition languageSelect :: "jsstring \<Rightarrow> app \<Rightarrow> app" where
  "languageSelect v s = (if isListening s then s else onLanguageChange v s)"

subsection \<open>Events and runs\<close>

text \<open>
  Events are delivered one at a time, each handler seeing the state the previous one
  left. \<open>ui_event\<close> lists what originates in the page (the handlers themselves, whether
  or not a control would let the click through, and the timer of \<open>handleCopy\<close>);
  \<open>adapter_event\<close> lists the callbacks of the recogniser.
\<close>

datatype ui_event = Toggle | Copy | Clear | SelectLanguage jsstring | CopiedTimeout

datatype adapter_event = OnStart | OnEnd | OnError jsstring | OnResult speech_event

datatype event = UI ui_event | Adapter adapter_event

fun user :: "ui_event \<Rightarrow> app \<Rightarrow> app" where
  "user Toggle s = handleToggleListening s"
| "user Copy s = handleCopy s"
| "user Clear s = handleClear s"
| "user (SelectLanguage v) s = onLanguageChange v s"
| "user CopiedTimeout s = copiedTimeout s"

fun notify :: "adapter_event \<Rightarrow> app \<Rightarrow> app" where
  "notify OnStart s = onstart s"
| "notify OnEnd s = onend s"
| "notify (OnError e) s = onerror e s"
| "notify (OnResult ev) s = onresult ev s"

fun step :: "event \<Rightarrow> app \<Rightarrow> app" where
  "step (UI u) s = user u s"
| "step (Adapter a) s = notify a s"

definition run :: "app \<Rightarrow> event list \<Rightarrow> app" where
  "run s es = foldl (\<lambda>s e. step e s) s es"

text \<open>
  Without a recogniser object there are no callbacks, so a run in a browser without the
  capability consists of page events only.
\<close>

definition runUI :: "app \<Rightarrow> ui_event list \<Rightarrow> app" where
  "runUI s us = foldl (\<lambda>s u. user u s) s us"

fun isResult :: "event \<Rightarrow> bool" where
  "isResult (Adapter (OnResult ev)) = True"
| "isResult e = False"

text \<open>Shorthand for concrete results and result events.\<close>

definition final :: "string \<Rightarrow> speech_result" where
  "final cs = \<lparr>isFinal = True, transcript0 = lit cs\<rparr>"

definition interim :: "string \<Rightarrow> speech_result" where
  "interim cs = \<lparr>isFinal = False, transcript0 = lit cs\<rparr>"

definition batch :: "nat \<Rightarrow> speech_result list \<Rightarrow> event" where
  "batch i rs = Adapter (OnResult \<lparr>resultIndex = i, results = rs\<rparr>)"

text \<open>
  A session in progress that has shown one final result: mount, toggle, the start
  callback, one result event.
\<close>

definition listening_abc :: app where
  "listening_abc = run (mount True) [UI Toggle, Adapter OnStart, batch 0 [final ''abc'']]"

text \<open>A session in progress that shows one interim result.\<close>

definition listening_hel :: app where
  "listening_hel = run (mount True) [UI Toggle, Adapter OnStart, batch 0 [interim ''hel'']]"

text \<open>An idle page whose transcript starts with a space, as recognisers deliver it.\<close>

definition idle_hi :: app where
  "idle_hi = run (mount True)
     [UI Toggle, Adapter OnStart, batch 0 [final '' hi''], UI Toggle, Adapter OnEnd]"

text \<open>
  A second session about to receive results: the first session left \<open>hello \<close>, and
  the toggle that started the second stored \<open>hello \<close> as the text at session start.
\<close>

definition resumed_hello :: app where
  "resumed_hello = run (mount True)
     [UI Toggle, Adapter OnStart, batch 0 [final ''hello ''], UI Toggle, Adapter OnEnd,
      UI Toggle, Adapter OnStart]"

text \<open>
  The number of language changes in a list of page events that select a language other
  than the current one, \<open>l\<close> being the language before the first event. These are the
  changes that re-render and run the effect again.
\<close>

fun languageChanges :: "jsstring \<Rightarrow> ui_event list \<Rightarrow> nat" where
  "languageChanges l [] = 0"
| "languageChanges l (SelectLanguage v # us) =
     (if v = l then languageChanges l us else Suc (languageChanges v us))"
| "languageChanges l (u # us) = languageChanges l us"

text \<open>
  The invariant of a page without the capability: the error is the unsupported message,
  no recogniser exists and none has been called.
\<close>

definition unsupportedState :: "app \<Rightarrow> bool" where
  "unsupportedState s \<longleftrightarrow>
     hasSpeechRecognition s = False \<and> error s = Some unsupportedMessage \<and>
     recognitionRef s = None \<and> platformCalls s = []"

section \<open>Properties\<close>

subsection \<open>The scan of a result event\<close>

lemma scanResults_eq:
  "scanResults rs i (f, n) =
     (f @ concat (map transcript0 (filter isFinal (drop i rs))),
      n @ concat (map transcript0 (filter (\<lambda>r. \<not> isFinal r) (drop i rs))))"
proof (induction rs i "(f, n)" arbitrary: f n rule: scanResults.induct)
  case (1 rs i fin intr)
  show ?case
  proof (cases "i < length rs")
    case True
    then have d: "drop i rs = rs ! i # drop (Suc i) rs"
      by (simp add: Cons_nth_drop_Suc)
    show ?thesis
    proof (cases "isFinal (rs ! i)")
      case True
      with \<open>i < length rs\<close> 1(1) d show ?thesis
        by (subst scanResults.simps) simp
    next
      case False
      with \<open>i < length rs\<close> 1(2) d show ?thesis
        by (subst scanResults.simps) simp
    qed
  next
    case False
    then show ?thesis
      by (subst scanResults.simps) simp
  qed
qed

lemma onresult_eq:
  "onresult ev s =
     s\<lparr>transcript := transcriptAtSessionStart s
        @ concat (map transcript0 (filter isFinal (drop (resultIndex ev) (results ev))))
        @ concat (map transcript0
            (filter (\<lambda>r. \<not> isFinal r) (drop (resultIndex ev) (results ev))))\<rparr>"
  by (simp add: onresult_def scanResults_eq)

lemmas handlers =
  handleToggleListening_def handleCopy_def handleClear_def onLanguageChange_def
  copiedTimeout_def onstart_def onend_def onerror_def onresult_eq speechEffect_def
  speechCleanup_def

lemmas strings = lit_def trim_def trimStart_def trimEnd_def isWhiteSpace_def

lemmas concrete = run_def batch_def final_def interim_def mount_def initial_def

subsection \<open>Trimming\<close>

lemma trim_Nil: "trim [] = []"
  by (simp add: trim_def trimStart_def trimEnd_def)

lemma trimEnd_decomp: "s = trimEnd s @ rev (takeWhile isWhiteSpace (rev s))"
proof -
  have "rev s = takeWhile isWhiteSpace (rev s) @ dropWhile isWhiteSpace (rev s)"
    by simp
  then have "rev (rev s) =
      rev (dropWhile isWhiteSpace (rev s)) @ rev (takeWhile isWhiteSpace (rev s))"
    by (metis rev_append)
  then show ?thesis
    by (simp add: trimEnd_def)
qed

lemma trim_decomp:
  "s = takeWhile isWhiteSpace s @ trim s
       @ rev (takeWhile isWhiteSpace (rev (trimStart s)))"
proof -
  have "s = takeWhile isWhiteSpace s @ trimStart s"
    by (simp add: trimStart_def)
  also have "trimStart s =
      trim s @ rev (takeWhile isWhiteSpace (rev (trimStart s)))"
    unfolding trim_def by (rule trimEnd_decomp)
  finally show ?thesis .
qed

lemma trim_last: "trim s \<noteq> [] \<Longrightarrow> \<not> isWhiteSpace (last (trim s))"
proof -
  assume ne: "trim s \<noteq> []"
  let ?d = "dropWhile isWhiteSpace (rev (trimStart s))"
  from ne have "?d \<noteq> []"
    by (simp add: trim_def trimEnd_def)
  then have "\<not> isWhiteSpace (hd ?d)"
    by (rule hd_dropWhile)
  moreover from \<open>?d \<noteq> []\<close> have "last (rev ?d) = hd ?d"
    by (simp add: last_rev)
  ultimately show ?thesis
    by (simp add: trim_def trimEnd_def)
qed

lemma trim_hd: "trim s \<noteq> [] \<Longrightarrow> \<not> isWhiteSpace (hd (trim s))"
proof -
  assume ne: "trim s \<noteq> []"
  have dec: "trimStart s = trim s @ rev (takeWhile isWhiteSpace (rev (trimStart s)))"
    unfolding trim_def by (rule trimEnd_decomp)
  with ne have "trimStart s \<noteq> []"
    by auto
  then have "\<not> isWhiteSpace (hd (trimStart s))"
    unfolding trimStart_def by (rule hd_dropWhile)
  moreover from ne dec have "hd (trimStart s) = hd (trim s)"
    by (metis hd_append2)
  ultimately show ?thesis
    by simp
qed

subsection \<open>Example states\<close>

lemma listening_abc_eq:
  "listening_abc =
     \<lparr> isListening = True, transcript = lit ''abc'', language = lit ''en-US'', error = None,
       isCopied = False,
       recognitionRef =
         Some \<lparr>continuous = True, interimResults = True, lang = lit ''en-US''\<rparr>,
       transcriptAtSessionStart = [], hasSpeechRecognition = True,
       platformCalls = [Construct (lit ''en-US''), StartCall], clipboard = [],
       unsupportedReports = 0 \<rparr>"
  by (simp add: listening_abc_def handlers concrete trim_Nil)

lemma listening_hel_eq:
  "listening_hel =
     \<lparr> isListening = True, transcript = lit ''hel'', language = lit ''en-US'', error = None,
       isCopied = False,
       recognitionRef =
         Some \<lparr>continuous = True, interimResults = True, lang = lit ''en-US''\<rparr>,
       transcriptAtSessionStart = [], hasSpeechRecognition = True,
       platformCalls = [Construct (lit ''en-US''), StartCall], clipboard = [],
       unsupportedReports = 0 \<rparr>"
  by (simp add: listening_hel_def handlers concrete trim_Nil)

lemma idle_hi_eq:
  "idle_hi =
     \<lparr> isListening = False, transcript = lit '' hi'', language = lit ''en-US'', error = None,
       isCopied = False,
       recognitionRef =
         Some \<lparr>continuous = True, interimResults = True, lang = lit ''en-US''\<rparr>,
       transcriptAtSessionStart = [], hasSpeechRecognition = True,
       platformCalls = [Construct (lit ''en-US''), StartCall, StopCall], clipboard = [],
       unsupportedReports = 0 \<rparr>"
  by (simp add: idle_hi_def handlers concrete trim_Nil)

lemma resumed_hello_eq:
  "resumed_hello =
     \<lparr> isListening = True, transcript = lit ''hello '', language = lit ''en-US'',
       error = None, isCopied = False,
       recognitionRef =
         Some \<lparr>continuous = True, interimResults = True, lang = lit ''en-US''\<rparr>,
       transcriptAtSessionStart = lit ''hello '', hasSpeechRecognition = True,
       platformCalls = [Construct (lit ''en-US''), StartCall, StopCall, StartCall],
       clipboard = [], unsupportedReports = 0 \<rparr>"
  by (simp add: resumed_hello_def handlers concrete strings)

subsection \<open>Folding result events\<close>

text \<open>
  C1. The transcript after a result event is the text at session start followed by the
  final and then the interim entries of \<open>event.results\<close> from \<open>event.resultIndex\<close>
  on (\<open>onresult_eq\<close>); \<open>sessionFinalTranscript\<close> is a local of the callback and
  starts empty at every event. With \<open>continuous = true\<close> the recogniser keeps earlier
  results in \<open>event.results\<close> and moves \<open>resultIndex\<close> past them. Here the first
  event finalises \<open>hello \<close> at index 0; the second carries it again at index 0 and an
  interim \<open>wor\<close> at index 1, with \<open>resultIndex = 1\<close>. The transcript is then \<open>wor\<close>:
  the text finalised by the first event is gone.
\<close>

theorem later_batch_drops_earlier_final:
  "transcript (run (mount True)
      [UI Toggle, Adapter OnStart,
       batch 0 [final ''hello ''],
       batch 1 [final ''hello '', interim ''wor'']]) = lit ''wor''
   \<and> transcript (run (mount True)
      [UI Toggle, Adapter OnStart,
       batch 0 [final ''hello ''],
       batch 1 [final ''hello '', interim ''wor'']]) \<noteq> lit ''hello wor''"
  by (simp add: handlers concrete trim_Nil lit_def)

text \<open>
  C3, as stated, fails. A session shows the interim text \<open>hel\<close>; an event whose scanned
  window is empty then sets the transcript to the text at session start, which is empty:
  the transcript changes.
\<close>

theorem empty_batch_drops_interim_counterexample:
  "length (results \<lparr>resultIndex = 0, results = []\<rparr>)
     \<le> resultIndex \<lparr>resultIndex = 0, results = []\<rparr>
   \<and> transcript (onresult \<lparr>resultIndex = 0, results = []\<rparr> listening_hel)
       \<noteq> transcript listening_hel"
  by (simp add: listening_hel_eq onresult_eq lit_def)

text \<open>
  C3, amended. Let an event have no entry from \<open>resultIndex\<close> on. If the transcript
  equals the text at session start, the event leaves the whole state unchanged. If the
  transcript was produced by an event whose scanned entries were all interim, so that it
  is the text at session start followed by their interim text, the event sets the
  transcript back to the text at session start: the interim text is dropped, not kept.
\<close>

theorem empty_batch_keeps_base_drops_interim:
  assumes "length (results ev) \<le> resultIndex ev"
  shows "(transcript s = transcriptAtSessionStart s \<longrightarrow> onresult ev s = s)
         \<and> ((\<forall>r\<in>set (drop (resultIndex b) (results b)). \<not> isFinal r) \<longrightarrow>
               transcript (onresult b s) =
                 transcriptAtSessionStart s
                 @ concat (map transcript0 (drop (resultIndex b) (results b)))
               \<and> transcript (onresult ev (onresult b s)) = transcriptAtSessionStart s)"
proof -
  have keep: "transcript s = transcriptAtSessionStart s \<longrightarrow> onresult ev s = s"
    using assms by (simp add: onresult_eq)
  have drop_interim: "transcript (onresult b s) =
        transcriptAtSessionStart s
        @ concat (map transcript0 (drop (resultIndex b) (results b)))
      \<and> transcript (onresult ev (onresult b s)) = transcriptAtSessionStart s"
    if interim_only: "\<forall>r\<in>set (drop (resultIndex b) (results b)). \<not> isFinal r"
  proof -
    from interim_only
    have "filter isFinal (drop (resultIndex b) (results b)) = []"
      by (simp add: filter_empty_conv)
    moreover from interim_only
    have "filter (\<lambda>r. \<not> isFinal r) (drop (resultIndex b) (results b))
        = drop (resultIndex b) (results b)"
      by (simp add: filter_id_conv)
    ultimately show ?thesis
      using assms by (simp add: onresult_eq)
  qed
  from keep drop_interim show ?thesis
    by blast
qed

theorem empty_batch_keeps_base_drops_interim_witness:
  "length (results \<lparr>resultIndex = 1, results = [interim ''wor'']\<rparr>)
     \<le> resultIndex \<lparr>resultIndex = 1, results = [interim ''wor'']\<rparr>
   \<and> transcript resumed_hello = lit ''hello ''
   \<and> transcriptAtSessionStart resumed_hello = lit ''hello ''
   \<and> onresult \<lparr>resultIndex = 1, results = [interim ''wor'']\<rparr> resumed_hello = resumed_hello
   \<and> transcript (onresult \<lparr>resultIndex = 0, results = [interim ''wor'']\<rparr> resumed_hello)
       = lit ''hello wor''
   \<and> transcript (onresult \<lparr>resultIndex = 1, results = [interim ''wor'']\<rparr>
        (onresult \<lparr>resultIndex = 0, results = [interim ''wor'']\<rparr> resumed_hello))
       = lit ''hello ''"
  using empty_batch_keeps_base_drops_interim
    [of "\<lparr>resultIndex = 1, results = [interim ''wor'']\<rparr>" resumed_hello
        "\<lparr>resultIndex = 0, results = [interim ''wor'']\<rparr>"]
  by (simp add: resumed_hello_eq interim_def lit_def)

text \<open>
  C4. Interim text is replaced, never appended. The transcript after two result events
  is the transcript the second alone would give, and no result event touches the text
  at session start. For an interim \<open>hel\<close> at index 0 followed by an interim \<open>hello\<close>
  at index 0, the scan of the second event returns the interim buffer \<open>hello\<close> and the
  transcript is the text at session start followed by \<open>hello\<close>.
\<close>

theorem interim_replaced_not_appended:
  "transcript (onresult b2 (onresult b1 s)) = transcript (onresult b2 s)
   \<and> transcriptAtSessionStart (onresult b1 s) = transcriptAtSessionStart s
   \<and> scanResults [interim ''hello''] 0 ([], []) = ([], lit ''hello'')
   \<and> transcript (onresult \<lparr>resultIndex = 0, results = [interim ''hello'']\<rparr>
        (onresult \<lparr>resultIndex = 0, results = [interim ''hel'']\<rparr> s))
       = transcriptAtSessionStart s @ lit ''hello''"
  by (simp add: onresult_eq scanResults_eq interim_def)

subsection \<open>Starting a session\<close>

text \<open>
  C2, as stated, fails. The idle transcript is \<open> hi\<close>, with a leading space. Trimming
  trailing whitespace only and appending a space would give \<open> hi \<close>; the toggle stores
  \<open>hi \<close>, because \<open>trim\<close> removes the leading space as well.
\<close>

theorem toggle_trims_both_ends_counterexample:
  "\<not> isListening idle_hi \<and> trimEnd (transcript idle_hi) \<noteq> []
   \<and> transcriptAtSessionStart (handleToggleListening idle_hi)
       \<noteq> trimEnd (transcript idle_hi) @ lit '' ''"
  by (simp add: idle_hi_eq handleToggleListening_def strings)

text \<open>
  C2, amended. A toggle while not listening sets the text at session start to the
  transcript trimmed at both ends, followed by one space when the trimmed text is not
  empty, and to the empty string otherwise. The trimmed text is the transcript without
  a prefix and a suffix of whitespace, and it neither starts nor ends with whitespace.
  Consequently a session that leaves \<open>hello\<close>, a stop, a start and a final result
  \<open>world\<close> give the transcript \<open>hello world\<close>.
\<close>

theorem toggle_start_sets_base:
  assumes "\<not> isListening s"
  shows "transcriptAtSessionStart (handleToggleListening s) =
           (if trim (transcript s) = [] then [] else trim (transcript s) @ lit '' '')
         \<and> (\<exists>p q. transcript s = p @ trim (transcript s) @ q
                \<and> list_all isWhiteSpace p \<and> list_all isWhiteSpace q)
         \<and> (trim (transcript s) \<noteq> [] \<longrightarrow>
               \<not> isWhiteSpace (hd (trim (transcript s)))
               \<and> \<not> isWhiteSpace (last (trim (transcript s))))
         \<and> transcript (run (mount True)
              [UI Toggle, Adapter OnStart, batch 0 [final ''hello''], UI Toggle, Adapter OnEnd,
               UI Toggle, Adapter OnStart, batch 0 [final ''world'']]) = lit ''hello world''"
proof -
  have base: "transcriptAtSessionStart (handleToggleListening s) =
      (if trim (transcript s) = [] then [] else trim (transcript s) @ lit '' '')"
    using assms by (simp add: handleToggleListening_def Let_def split: option.split)
  have "list_all isWhiteSpace (takeWhile isWhiteSpace (transcript s))"
    by (simp add: list_all_iff) (meson set_takeWhileD)
  moreover have
    "list_all isWhiteSpace (rev (takeWhile isWhiteSpace (rev (trimStart (transcript s)))))"
    by (simp add: list_all_iff) (meson set_takeWhileD)
  ultimately have dec: "\<exists>p q. transcript s = p @ trim (transcript s) @ q
      \<and> list_all isWhiteSpace p \<and> list_all isWhiteSpace q"
    using trim_decomp [of "transcript s"] by blast
  have ends: "trim (transcript s) \<noteq> [] \<longrightarrow>
      \<not> isWhiteSpace (hd (trim (transcript s))) \<and> \<not> isWhiteSpace (last (trim (transcript s)))"
    by (simp add: trim_hd trim_last)
  have scen: "transcript (run (mount True)
      [UI Toggle, Adapter OnStart, batch 0 [final ''hello''], UI Toggle, Adapter OnEnd,
       UI Toggle, Adapter OnStart, batch 0 [final ''world'']]) = lit ''hello world''"
    by (simp add: handlers concrete strings)
  from base dec ends scen show ?thesis
    by blast
qed

theorem toggle_start_sets_base_witness:
  "\<not> isListening idle_hi \<and> trim (transcript idle_hi) \<noteq> []
   \<and> transcript idle_hi = lit '' hi''
   \<and> transcriptAtSessionStart (handleToggleListening idle_hi) = lit ''hi ''"
  using toggle_start_sets_base [of idle_hi]
  by (simp add: idle_hi_eq strings)

subsection \<open>Clearing\<close>

text \<open>
  C5. The clear operation is the click on the clear button, the only place
  \<open>handleClear\<close> is called from. The button is disabled while listening and while the
  transcript is empty, so a clear in either state is rejected: the whole state, with
  the transcript and the text at session start, is unchanged.
\<close>

theorem clearButton_disabled_noop:
  assumes "isListening s \<or> transcript s = []"
  shows "clearButton s = s"
  using assms by (auto simp add: clearButton_def)

theorem clearButton_disabled_noop_witness:
  "(isListening listening_abc \<or> transcript listening_abc = [])
   \<and> clearButton listening_abc = listening_abc
   \<and> (isListening (mount True) \<or> transcript (mount True) = [])
   \<and> clearButton (mount True) = mount True"
  using clearButton_disabled_noop [of listening_abc] clearButton_disabled_noop [of "mount True"]
  by (simp add: listening_abc_eq mount_def initial_def speechEffect_def)

lemma blank_step:
  assumes "\<not> isResult e" "transcript s = []" "transcriptAtSessionStart s = []"
  shows "transcript (step e s) = [] \<and> transcriptAtSessionStart (step e s) = []"
proof (cases e)
  case (UI u)
  with assms show ?thesis
    by (cases u) (simp_all add: handlers Let_def trim_Nil split: option.split)
next
  case (Adapter a)
  with assms show ?thesis
    by (cases a) (simp_all add: handlers)
qed

lemma blank_run:
  assumes "\<forall>e\<in>set es. \<not> isResult e" "transcript s = []" "transcriptAtSessionStart s = []"
  shows "transcript (run s es) = [] \<and> transcriptAtSessionStart (run s es) = []"
  using assms unfolding run_def
proof (induction es arbitrary: s)
  case Nil
  then show ?case by simp
next
  case (Cons e es)
  from Cons.prems blank_step [of e s]
  have "transcript (step e s) = [] \<and> transcriptAtSessionStart (step e s) = []"
    by simp
  with Cons.IH [of "step e s"] Cons.prems(1) show ?case
    by simp
qed

text \<open>
  C9. \<open>handleClear\<close> empties the transcript and the text at session start. After any
  further events among which there is no result event, the transcript is still empty,
  and a toggle then leaves the text at session start empty: the session it starts does
  not carry the text from before the clear.
\<close>

theorem clear_resets_later_sessions:
  assumes "\<forall>e\<in>set es. \<not> isResult e"
  shows "transcript (handleClear s) = []
         \<and> transcriptAtSessionStart (handleClear s) = []
         \<and> transcript (run (handleClear s) es) = []
         \<and> transcriptAtSessionStart (handleToggleListening (run (handleClear s) es)) = []"
proof -
  have c: "transcript (handleClear s) = [] \<and> transcriptAtSessionStart (handleClear s) = []"
    by (simp add: handleClear_def)
  with assms have r: "transcript (run (handleClear s) es) = []
      \<and> transcriptAtSessionStart (run (handleClear s) es) = []"
    by (simp add: blank_run)
  then have "transcriptAtSessionStart (handleToggleListening (run (handleClear s) es)) = []"
    by (simp add: handleToggleListening_def Let_def trim_Nil split: option.split)
  with c r show ?thesis
    by simp
qed

theorem clear_resets_later_sessions_witness:
  "transcript idle_hi \<noteq> []
   \<and> transcript (handleClear idle_hi) = []
   \<and> \<not> isListening (run (handleClear idle_hi)
        [UI Toggle, Adapter OnStart, Adapter (OnError (lit ''no-speech'')), Adapter OnEnd])
   \<and> transcriptAtSessionStart (handleToggleListening (run (handleClear idle_hi)
        [UI Toggle, Adapter OnStart, Adapter (OnError (lit ''no-speech'')), Adapter OnEnd])) = []"
  using clear_resets_later_sessions [of
    "[UI Toggle, Adapter OnStart, Adapter (OnError (lit ''no-speech'')), Adapter OnEnd]" idle_hi]
  by (simp add: idle_hi_eq handlers run_def trim_Nil lit_def)

subsection \<open>Frame of the error and end callbacks\<close>

text \<open>
  C6. An error event of any kind followed by the end event leaves the transcript as it
  was, together with everything else except the error message and the listening flag.
\<close>

theorem error_then_end_keeps_transcript:
  "onend (onerror e s) = s\<lparr>error := Some (errorMessage e), isListening := False\<rparr>
   \<and> transcript (onend (onerror e s)) = transcript s
   \<and> transcriptAtSessionStart (onend (onerror e s)) = transcriptAtSessionStart s"
  by (simp add: onend_def onerror_def)

subsection \<open>Changing the language\<close>

text \<open>
  C7, as stated, fails. The change handler has no guard of its own: called while a
  session is listening with \<open>en-US\<close>, it sets the language to \<open>fr-FR\<close>, and the effect
  stops the recogniser and puts one configured with \<open>fr-FR\<close> in its place.
\<close>

theorem onLanguageChange_unguarded_counterexample:
  "isListening listening_abc
   \<and> language (onLanguageChange (lit ''fr-FR'') listening_abc) \<noteq> language listening_abc
   \<and> map_option lang (recognitionRef (onLanguageChange (lit ''fr-FR'') listening_abc))
       \<noteq> map_option lang (recognitionRef listening_abc)"
  by (simp add: listening_abc_eq onLanguageChange_def speechEffect_def speechCleanup_def lit_def)

text \<open>
  C7, amended. The lock is the select's: it is disabled while listening, so a change
  attempted through it then leaves the state, with the language and the recogniser,
  unchanged.
\<close>

theorem languageSelect_disabled_while_listening:
  assumes "isListening s"
  shows "languageSelect v s = s"
  using assms by (simp add: languageSelect_def)

theorem languageSelect_disabled_while_listening_witness:
  "isListening listening_abc
   \<and> languageSelect (lit ''fr-FR'') listening_abc = listening_abc
   \<and> language (languageSelect (lit ''fr-FR'') listening_abc) = lit ''en-US''"
  using languageSelect_disabled_while_listening [of listening_abc "lit ''fr-FR''"]
  by (simp add: listening_abc_eq)

subsection \<open>A browser without speech recognition\<close>

lemma errorMessage_not_unsupported: "errorMessage e \<noteq> unsupportedMessage"
  by (simp add: errorMessage_def unsupportedMessage_def lit_def)

lemma unsupportedState_mount: "unsupportedState (mount False)"
  by (simp add: unsupportedState_def mount_def initial_def speechEffect_def)

lemma unsupportedState_user: "unsupportedState s \<Longrightarrow> unsupportedState (user u s)"
  by (cases u) (simp_all add: unsupportedState_def handlers Let_def)

lemma unsupportedState_runUI: "unsupportedState s \<Longrightarrow> unsupportedState (runUI s us)"
  unfolding runUI_def
  by (induction us arbitrary: s) (simp_all add: unsupportedState_user)

lemma unsupportedReports_user:
  "unsupportedState s \<Longrightarrow>
     unsupportedReports (user u s) + languageChanges (language (user u s)) us
       = unsupportedReports s + languageChanges (language s) (u # us)"
  by (cases u) (simp_all add: unsupportedState_def handlers Let_def)

lemma unsupportedReports_runUI:
  "unsupportedState s \<Longrightarrow>
     unsupportedReports (runUI s us) = unsupportedReports s + languageChanges (language s) us"
proof (induction us arbitrary: s)
  case Nil
  then show ?case
    by (simp add: runUI_def)
next
  case (Cons u us)
  from Cons.prems have "unsupportedState (user u s)"
    by (rule unsupportedState_user)
  then have "unsupportedReports (runUI (user u s) us)
      = unsupportedReports (user u s) + languageChanges (language (user u s)) us"
    by (rule Cons.IH)
  also have "\<dots> = unsupportedReports s + languageChanges (language s) (u # us)"
    using Cons.prems by (rule unsupportedReports_user)
  finally show ?case
    by (simp add: runUI_def)
qed

text \<open>
  C8, as stated, fails. The capability check sits in the effect that depends on the
  language, and the language select is enabled when there is no recogniser. After
  mounting without the capability and one change of language, the unsupported message
  has been set twice, not once.
\<close>

theorem unsupported_reported_again_counterexample:
  "unsupportedReports (runUI (mount False) [SelectLanguage (lit ''fr-FR'')]) = 2
   \<and> unsupportedReports (runUI (mount False) [SelectLanguage (lit ''fr-FR'')]) \<noteq> 1"
  by (simp add: runUI_def mount_def initial_def onLanguageChange_def speechEffect_def
      speechCleanup_def lit_def)

text \<open>
  C8, amended. Without the capability, mounting sets the error to the unsupported
  message, once. Through every sequence of page events the error stays that message;
  it is set again, to the same message, once for every change of language and by
  nothing else. No recogniser object ever exists and no call, \<open>start()\<close> included, is
  ever made on the platform. The message differs from the message of every error event.
\<close>

theorem unsupported_error_is_persistent:
  "error (mount False) = Some unsupportedMessage
   \<and> unsupportedReports (mount False) = 1
   \<and> error (runUI (mount False) us) = Some unsupportedMessage
   \<and> unsupportedReports (runUI (mount False) us) = 1 + languageChanges (lit ''en-US'') us
   \<and> recognitionRef (runUI (mount False) us) = None
   \<and> platformCalls (runUI (mount False) us) = []
   \<and> errorMessage e \<noteq> unsupportedMessage"
proof -
  have m: "unsupportedReports (mount False) = 1" "language (mount False) = lit ''en-US''"
    by (simp_all add: mount_def initial_def speechEffect_def)
  from unsupportedReports_runUI [OF unsupportedState_mount, of us] m
  have "unsupportedReports (runUI (mount False) us) = 1 + languageChanges (lit ''en-US'') us"
    by simp
  with m unsupportedState_runUI [OF unsupportedState_mount, of us] unsupportedState_mount
    errorMessage_not_unsupported [of e]
  show ?thesis
    by (simp add: unsupportedState_def)
qed

subsection \<open>Copying\<close>

text \<open>
  C10. With an empty transcript \<open>handleCopy\<close> changes nothing: no clipboard write, no
  acknowledgment flag. With a non-empty transcript it writes exactly the transcript to
  the clipboard, sets the flag and changes nothing else.
\<close>

theorem handleCopy_writes_nonempty_only:
  "(transcript s = [] \<longrightarrow> handleCopy s = s)
   \<and> (transcript s \<noteq> [] \<longrightarrow>
        handleCopy s = s\<lparr>clipboard := clipboard s @ [transcript s], isCopied := True\<rparr>)"
  by (simp add: handleCopy_def)

theorem handleCopy_writes_nonempty_only_witness:
  "transcript (mount True) = []
   \<and> clipboard (handleCopy (mount True)) = [] \<and> \<not> isCopied (handleCopy (mount True))
   \<and> transcript idle_hi \<noteq> []
   \<and> clipboard (handleCopy idle_hi) = [lit '' hi''] \<and> isCopied (handleCopy idle_hi)"
  using handleCopy_writes_nonempty_only [of "mount True"]
    handleCopy_writes_nonempty_only [of idle_hi]
  by (simp add: idle_hi_eq mount_def initial_def speechEffect_def lit_def)

end
